theory Spec2Isabelle
  imports Main
begin

section \<open>Resource locators\<close>

text \<open>
  JavaScript's \<^verbatim>\<open>String.prototype.startsWith\<close>: the prefix test on the
  sequence of code units.
\<close>

definition startsWith :: "string \<Rightarrow> string \<Rightarrow> bool" where
  "startsWith s p = (take (length p) s = p)"

text \<open>
  \<^verbatim>\<open>normalizeLocalUrl(endpoint)\<close> of the data loading service: an endpoint with a
  leading separator is returned as it is, one that starts with the assets namespace gets
  the separator, anything else gets the whole prefix.
\<close>

definition normalizeLocalUrl :: "string \<Rightarrow> string" where
  "normalizeLocalUrl endpoint =
     (if startsWith endpoint ''/'' then endpoint
      else if startsWith endpoint ''assets/'' then ''/'' @ endpoint
      else ''/assets/'' @ endpoint)"

section \<open>JavaScript values\<close>

text \<open>
  \<^verbatim>\<open>type ResponseType = 'json' | 'text' | 'blob' | 'arraybuffer'\<close>
\<close>

datatype ResponseType = Json | Text | Blob | ArrayBuffer

text \<open>\<^verbatim>\<open>source: 'local' | 'external'\<close> of a cache entry.\<close>

datatype Source = Local | External

text \<open>
  What a transport hands over, and what \<^verbatim>\<open>JSON.parse\<close> builds, before it lives in
  the heap: a tree. Numbers are integers here; no claim reads a number.
\<close>

datatype raw =
    RUndefined
  | RNull
  | RBool bool
  | RNum int
  | RStr string
  | RArr "raw list"
  | RObj "(string \<times> raw) list"
  | RBlob "nat list"
  | RBuffer "nat list"

text \<open>
  Values at run time. Primitives are values; every object (plain object, array,
  \<^verbatim>\<open>Blob\<close>, \<^verbatim>\<open>ArrayBuffer\<close>) lives in the heap and is held by reference, so that
  two holders of the same reference see each other's writes.
\<close>

datatype val =
    VUndefined
  | VNull
  | VBool bool
  | VNum int
  | VStr string
  | VRef nat

datatype obj =
    OPlain "(string \<times> val) list"
  | OArray "val list"
  | OBlob "nat list"
  | OArrayBuffer "nat list"

text \<open>
  Building the object graph of a freshly received or parsed value: every object and
  array of the tree gets a new address at the end of the heap.
\<close>

fun alloc :: "raw \<Rightarrow> obj list \<Rightarrow> val \<times> obj list"
  and alloc_list :: "raw list \<Rightarrow> obj list \<Rightarrow> val list \<times> obj list"
  and alloc_fields :: "(string \<times> raw) list \<Rightarrow> obj list \<Rightarrow> (string \<times> val) list \<times> obj list"
where
  "alloc RUndefined h = (VUndefined, h)"
| "alloc RNull h = (VNull, h)"
| "alloc (RBool b) h = (VBool b, h)"
| "alloc (RNum n) h = (VNum n, h)"
| "alloc (RStr s) h = (VStr s, h)"
| "alloc (RArr xs) h =
     (case alloc_list xs h of (vs, h') \<Rightarrow> (VRef (length h'), h' @ [OArray vs]))"
| "alloc (RObj fs) h =
     (case alloc_fields fs h of (gs, h') \<Rightarrow> (VRef (length h'), h' @ [OPlain gs]))"
| "alloc (RBlob bs) h = (VRef (length h), h @ [OBlob bs])"
| "alloc (RBuffer bs) h = (VRef (length h), h @ [OArrayBuffer bs])"
| "alloc_list [] h = ([], h)"
| "alloc_list (x # xs) h =
     (case alloc x h of (v, h1) \<Rightarrow>
        (case alloc_list xs h1 of (vs, h2) \<Rightarrow> (v # vs, h2)))"
| "alloc_fields [] h = ([], h)"
| "alloc_fields (f # fs) h =
     (case alloc (snd f) h of (v, h1) \<Rightarrow>
        (case alloc_fields fs h1 of (gs, h2) \<Rightarrow> ((fst f, v) # gs, h2)))"

text \<open>The decimal spelling of an array index, as a property key.\<close>

fun digits :: "nat \<Rightarrow> string" where
  "digits n =
     (if n < 10 then [''0123456789'' ! n]
      else digits (n div 10) @ [''0123456789'' ! (n mod 10)])"

declare digits.simps [simp del]

definition indexed :: "val list \<Rightarrow> (string \<times> val) list" where
  "indexed vs = zip (map digits [0..<length vs]) vs"

text \<open>
  The own enumerable properties that the spread \<^verbatim>\<open>{ ...x }\<close> copies: the fields of a
  plain object, the elements of an array under their indices, the code units of a string
  under their indices, and nothing for a number, a boolean, \<^verbatim>\<open>null\<close>,
  \<^verbatim>\<open>undefined\<close>, a \<^verbatim>\<open>Blob\<close> or an \<^verbatim>\<open>ArrayBuffer\<close>.
\<close>

definition ownEnumerable :: "obj list \<Rightarrow> val \<Rightarrow> (string \<times> val) list" where
  "ownEnumerable h v =
     (case v of
        VStr s \<Rightarrow> indexed (map (\<lambda>c. VStr [c]) s)
      | VRef a \<Rightarrow>
          (if a < length h then
             (case h ! a of
                OPlain fs \<Rightarrow> fs
              | OArray vs \<Rightarrow> indexed vs
              | OBlob bs \<Rightarrow> []
              | OArrayBuffer bs \<Rightarrow> [])
           else [])
      | _ \<Rightarrow> [])"

text \<open>\<^verbatim>\<open>{ ...x }\<close>: a new plain object with the own enumerable properties of \<open>x\<close>.\<close>

definition spread :: "val \<Rightarrow> obj list \<Rightarrow> val \<times> obj list" where
  "spread v h = (VRef (length h), h @ [OPlain (ownEnumerable h v)])"

definition instanceofBlob :: "obj list \<Rightarrow> val \<Rightarrow> bool" where
  "instanceofBlob h v =
     (case v of
        VRef a \<Rightarrow> a < length h \<and> (case h ! a of OBlob bs \<Rightarrow> True | _ \<Rightarrow> False)
      | _ \<Rightarrow> False)"

text \<open>
  The expression both return sites of \<^verbatim>\<open>getData\<close> use:
  \<^verbatim>\<open>x instanceof Blob ? x : { ...x }\<close>.
\<close>

definition blobOrSpread :: "val \<Rightarrow> obj list \<Rightarrow> val \<times> obj list" where
  "blobOrSpread v h = (if instanceofBlob h v then (v, h) else spread v h)"


fun assign :: "string \<Rightarrow> val \<Rightarrow> (string \<times> val) list \<Rightarrow> (string \<times> val) list" where
  "assign k v [] = [(k, v)]"
| "assign k v (f # fs) = (if fst f = k then (k, v) # fs else f # assign k v fs)"

definition assignElement :: "string \<Rightarrow> val \<Rightarrow> val list \<Rightarrow> val list" where
  "assignElement k v vs =
     (case find (\<lambda>i. digits i = k) [0..<Suc (length vs)] of
        Some i \<Rightarrow> (if i < length vs then vs[i := v] else vs @ [v])
      | None \<Rightarrow> vs)"

definition setProperty :: "val \<Rightarrow> string \<Rightarrow> val \<Rightarrow> obj list \<Rightarrow> obj list" where
  "setProperty target k v h =
     (case target of
        VRef a \<Rightarrow>
          (if a < length h then
             (case h ! a of
                OPlain fs \<Rightarrow> h[a := OPlain (assign k v fs)]
              | OArray vs \<Rightarrow> h[a := OArray (assignElement k v vs)]
              | _ \<Rightarrow> h)
           else h)
      | _ \<Rightarrow> h)"

section \<open>Errors\<close>

text \<open>
  What can be thrown. \<open>Error message\<close> is a plain \<^verbatim>\<open>Error\<close>;
  \<open>HttpErrorResponse status\<close> is what the HTTP client rejects with, which is not an
  \<^verbatim>\<open>Error\<close> instance; \<open>DataLoadError message name path cause\<close> is the service's
  own class, with the arguments of its constructor.
\<close>

datatype exn =
    Error string
  | HttpErrorResponse nat
  | DataLoadError string string string "exn option"

fun instanceofError :: "exn \<Rightarrow> bool" where
  "instanceofError (Error m) = True"
| "instanceofError (HttpErrorResponse st) = False"
| "instanceofError (DataLoadError m n p c) = True"

fun message :: "exn \<Rightarrow> string" where
  "message (Error m) = m"
| "message (HttpErrorResponse st) = []"
| "message (DataLoadError m n p c) = m"

text \<open>
  The error of the cache check of \<^verbatim>\<open>getData\<close>, thrown on a recorded failure with
  the path as the caller spelled it.
\<close>

definition previouslyFailed :: "string \<Rightarrow> exn" where
  "previouslyFailed path =
     DataLoadError (''Failed to load data for '' @ path @ '' (previously failed)'')
       ''DataLoadError'' path None"

text \<open>The error of the \<^verbatim>\<open>catch\<close> of \<^verbatim>\<open>performDataLoad\<close>, around the local fetch.\<close>

definition failedNow :: "string \<Rightarrow> exn \<Rightarrow> exn" where
  "failedNow localUrl error =
     DataLoadError
       (''Failed to load data for '' @ localUrl @ '': '' @
          (if instanceofError error then message error else ''Unknown error''))
       ''DataLoadError'' localUrl
       (if instanceofError error then Some error else None)"

section \<open>The transports\<close>

text \<open>
  The world outside the service. \<open>http_get url t\<close> is what
  \<^verbatim>\<open>firstValueFrom(this.http.get(url, { responseType: t }))\<close> settles with for a
  local URL, \<open>proxy_get url t\<close> the same for the proxy URL built for the external
  \<open>url\<close> (\<open>Inl\<close> when it rejects). \<open>JSON_parse\<close> is \<^verbatim>\<open>JSON.parse\<close>
  (\<open>None\<close> when it throws) and \<open>body_text\<close> the platform's rendering of a body that
  is not a string (\<^verbatim>\<open>TextDecoder\<close>, \<^verbatim>\<open>Response.text\<close>, \<^verbatim>\<open>String\<close>).
\<close>

record network =
  http_get :: "string \<Rightarrow> ResponseType \<Rightarrow> exn + raw"
  proxy_get :: "string \<Rightarrow> ResponseType \<Rightarrow> exn + raw"
  JSON_parse :: "string \<Rightarrow> raw option"
  body_text :: "raw \<Rightarrow> string"

text \<open>The network reads a load sequence makes, in the order it makes them.\<close>

datatype request = ProxyGet string ResponseType | LocalGet string ResponseType

fun isProxyGet :: "request \<Rightarrow> bool" where
  "isProxyGet (ProxyGet u t) = True"
| "isProxyGet (LocalGet u t) = False"

fun isLocalGet :: "request \<Rightarrow> bool" where
  "isLocalGet (ProxyGet u t) = False"
| "isLocalGet (LocalGet u t) = True"

section \<open>The source resolver\<close>

text \<open>JavaScript truthiness, and \<^verbatim>\<open>typeof x === 'object'\<close>.\<close>

fun truthy :: "raw \<Rightarrow> bool" where
  "truthy RUndefined = False"
| "truthy RNull = False"
| "truthy (RBool b) = b"
| "truthy (RNum n) = (n \<noteq> 0)"
| "truthy (RStr s) = (s \<noteq> [])"
| "truthy r = True"

fun typeofObject :: "raw \<Rightarrow> bool" where
  "typeofObject RUndefined = False"
| "typeofObject (RBool b) = False"
| "typeofObject (RNum n) = False"
| "typeofObject (RStr s) = False"
| "typeofObject r = True"

text \<open>
  \<^verbatim>\<open>outreachConfig[key]\<close> on the loaded override document, a JSON object given by
  its fields, each key once (an inherited property is never a string, and where it would
  be chosen the result is \<^verbatim>\<open>null\<close> as for a missing key, so own fields are all
  that matter).
\<close>

definition property :: "(string \<times> raw) list \<Rightarrow> string \<Rightarrow> raw" where
  "property fs k = (case map_of fs k of Some r \<Rightarrow> r | None \<Rightarrow> RUndefined)"

text \<open>
  \<^verbatim>\<open>getExternalUrl(localUrl)\<close>. The snapshot of the override configuration is
  \<open>None\<close> when none was loaded.
\<close>

definition getExternalUrl :: "(string \<times> raw) list option \<Rightarrow> string \<Rightarrow> string option" where
  "getExternalUrl outreachConfig localUrl =
     (case outreachConfig of
        None \<Rightarrow> None
      | Some fs \<Rightarrow>
          (let override1 = property fs localUrl;
               override2 = property fs
                 (if startsWith localUrl ''/'' then drop 1 localUrl else ''/'' @ localUrl);
               override = (if truthy override1 then override1 else override2)
           in case override of
                RStr u \<Rightarrow> (if u \<noteq> [] then Some u else None)
              | _ \<Rightarrow> None))"

section \<open>The external fetcher\<close>

text \<open>
  \<^verbatim>\<open>url.trim()\<close>, on the white space of ASCII (a \<open>char\<close> is a byte; the white
  space beyond ASCII that JavaScript strips as well has no single \<open>char\<close>). The fetcher
  only asks whether the result is empty, and a URL it lets through here that is all
  white space fails the next check, on the scheme, before any network read.
\<close>

definition isWhitespace :: "char \<Rightarrow> bool" where
  "isWhitespace c = (c \<in> set [CHR 0x09, CHR 0x0A, CHR 0x0B, CHR 0x0C, CHR 0x0D, CHR 0x20])"

definition trim :: "string \<Rightarrow> string" where
  "trim s = rev (dropWhile isWhitespace (rev (dropWhile isWhitespace s)))"

text \<open>\<^verbatim>\<open>s.includes(sub)\<close>\<close>

fun includes_str :: "string \<Rightarrow> string \<Rightarrow> bool" where
  "includes_str [] sub = (sub = [])"
| "includes_str (c # s) sub = (startsWith (c # s) sub \<or> includes_str s sub)"

text \<open>
  \<^verbatim>\<open>s.match(/\{[\s\S]*\}/)\<close>: from the first opening brace to the last closing brace
  after it.
\<close>

definition matchBraces :: "string \<Rightarrow> string option" where
  "matchBraces s =
     (let t = dropWhile (\<lambda>c. c \<noteq> CHR ''{'') s;
          m = rev (dropWhile (\<lambda>c. c \<noteq> CHR ''}'') (rev t))
      in if m = [] then None else Some m)"

text \<open>The body of the proxy's answer as a string.\<close>

definition textResponse :: "network \<Rightarrow> raw \<Rightarrow> string" where
  "textResponse net rawResponse =
     (case rawResponse of
        RStr s \<Rightarrow> s
      | RNull \<Rightarrow> []
      | RUndefined \<Rightarrow> []
      | _ \<Rightarrow> body_text net rawResponse)"

text \<open>The \<^verbatim>\<open>catch (jsonError)\<close> branch: recovery of JSON embedded in HTML.\<close>

definition recoverJson :: "network \<Rightarrow> string \<Rightarrow> raw" where
  "recoverJson net txt =
     (if includes_str txt ''<html'' \<or> includes_str txt ''<HTML'' then
        (case matchBraces txt of
           Some m \<Rightarrow> (case JSON_parse net m of Some extractedJson \<Rightarrow> extractedJson | None \<Rightarrow> RStr txt)
         | None \<Rightarrow> RStr txt)
      else RStr txt)"

text \<open>
  \<^verbatim>\<open>fetchExternalData(url, responseType)\<close>: the value it resolves with or the error
  it rejects with, and the network reads it made.
\<close>

definition fetchExternalData ::
  "network \<Rightarrow> string \<Rightarrow> ResponseType \<Rightarrow> (exn + raw) \<times> request list" where
  "fetchExternalData net url rt =
     (if url = [] then (Inl (Error ''Invalid URL provided to fetchExternalData''), [])
      else if trim url = [] then (Inl (Error ''Empty URL provided''), [])
      else if \<not> startsWith url ''http://'' \<and> \<not> startsWith url ''https://'' then
        (Inl (Error (''Non-HTTP URL received: '' @ url)), [])
      else if rt = Blob then (proxy_get net url Blob, [ProxyGet url Blob])
      else if rt = ArrayBuffer then (proxy_get net url ArrayBuffer, [ProxyGet url ArrayBuffer])
      else
        (case proxy_get net url Text of
           Inl proxyError \<Rightarrow> (Inl proxyError, [ProxyGet url Text])
         | Inr rawResponse \<Rightarrow>
             (let txt = textResponse net rawResponse in
                (if txt = [] then Inl (Error ''Empty response from proxy server'')
                 else if rt = Text then Inr (RStr txt)
                 else
                   (case JSON_parse net txt of
                      Some jsonData \<Rightarrow>
                        (if truthy jsonData \<and> typeofObject jsonData then Inr jsonData
                         else Inr (recoverJson net txt))
                    | None \<Rightarrow> Inr (recoverJson net txt)),
                 [ProxyGet url Text]))))"

section \<open>The load sequence\<close>

text \<open>
  \<^verbatim>\<open>performDataLoad(localUrl, responseType)\<close>, after the configuration bootstrap it
  awaits: the external source if the resolver names one, then the local one. The result
  is the loaded value with its provenance, or the error thrown, and the network reads made.
\<close>

definition performDataLoad ::
  "network \<Rightarrow> (string \<times> raw) list option \<Rightarrow> string \<Rightarrow> ResponseType
     \<Rightarrow> (exn + raw \<times> Source) \<times> request list" where
  "performDataLoad net outreachConfig localUrl rt =
     (case
        (case getExternalUrl outreachConfig localUrl of
           None \<Rightarrow> (None, [])
         | Some externalUrl \<Rightarrow>
             (case fetchExternalData net externalUrl rt of
                (Inr d, reqs) \<Rightarrow>
                  (if d \<noteq> RUndefined \<and> d \<noteq> RNull then (Some d, reqs) else (None, reqs))
              | (Inl error, reqs) \<Rightarrow> (None, reqs)))
      of
        (Some d, reqs) \<Rightarrow> (Inr (d, External), reqs)
      | (None, reqs) \<Rightarrow>
          (case http_get net localUrl rt of
             Inr d \<Rightarrow>
               (if d \<noteq> RUndefined \<and> d \<noteq> RNull then
                  (Inr (d, Local), reqs @ [LocalGet localUrl rt])
                else
                  (Inl (failedNow localUrl (Error ''Local data is null or undefined'')),
                   reqs @ [LocalGet localUrl rt]))
           | Inl error \<Rightarrow> (Inl (failedNow localUrl error), reqs @ [LocalGet localUrl rt])))"

section \<open>The data loading service\<close>

text \<open>\<^verbatim>\<open>interface DataCacheEntry\<close>\<close>

record DataCacheEntry =
  data :: val
  timestamp :: nat
  source :: Source
  responseType :: ResponseType

text \<open>
  How a load ended: \<open>own\<close> is what the promise of the \<^verbatim>\<open>getData\<close> call that
  started the load settles with, \<open>shared\<close> is what \<^verbatim>\<open>dataPromise\<close> settles with
  (\<open>Inl\<close> a rejection).
\<close>

record settled =
  own :: "exn + val"
  shared :: "exn + val"

text \<open>
  One call of \<^verbatim>\<open>performDataLoad\<close> that \<^verbatim>\<open>getData\<close> started: its arguments,
  and how it ended once it has. The number of a load is its position in the list of
  loads; it stands for the pair of promises \<^verbatim>\<open>requestPromise\<close> and
  \<^verbatim>\<open>dataPromise\<close> of that call.
\<close>

record load =
  localUrl :: string
  loadType :: ResponseType
  outcome :: "settled option"

text \<open>
  The service: the two maps of the class (\<open>cache\<close> holds \<open>Some None\<close> where the
  source stores \<^verbatim>\<open>undefined\<close>, the recorded failure), the snapshot of the override
  configuration, the heap, the loads started, and the network reads made so far.
\<close>

record service =
  cache :: "string \<rightharpoonup> DataCacheEntry option"
  pendingRequests :: "string \<rightharpoonup> nat"
  outreachConfig :: "(string \<times> raw) list option"
  heap :: "obj list"
  loads :: "load list"
  requests :: "request list"

text \<open>
  What a call of \<^verbatim>\<open>getData\<close> gives its caller when it reaches its first suspension
  or its end: a value, an error, the promise of the load it started (\<open>Awaits n\<close>: the
  caller will see \<open>own\<close> of load \<open>n\<close>), or the pending promise it found
  (\<open>Shares n\<close>: the caller will see \<open>shared\<close> of load \<open>n\<close>).
\<close>

datatype answer = Returns val | Throws exn | Awaits nat | Shares nat

text \<open>
  \<^verbatim>\<open>getData\<close> from the check of the pending requests on: return the pending promise,
  or start the load and register its promise.
\<close>

definition joinOrStart :: "string \<Rightarrow> ResponseType \<Rightarrow> service \<Rightarrow> answer \<times> service" where
  "joinOrStart url actualResponseType s =
     (case pendingRequests s url of
        Some n \<Rightarrow> (Shares n, s)
      | None \<Rightarrow>
          (Awaits (length (loads s)),
           s\<lparr>loads := loads s @
               [\<lparr>localUrl = url, loadType = actualResponseType, outcome = None\<rparr>],
             pendingRequests := (pendingRequests s)(url \<mapsto> length (loads s))\<rparr>))"

text \<open>
  \<^verbatim>\<open>getData(path, responseType)\<close> up to its \<^verbatim>\<open>await requestPromise\<close>: the cache
  check, the check of the pending requests, the start of the load.
\<close>

definition getData :: "string \<Rightarrow> ResponseType \<Rightarrow> service \<Rightarrow> answer \<times> service" where
  "getData path actualResponseType s =
     (let url = normalizeLocalUrl path in
        case cache s url of
          Some (Some cached) \<Rightarrow>
            (if responseType cached = actualResponseType then
               (case blobOrSpread (data cached) (heap s) of
                  (v, h) \<Rightarrow> (Returns v, s\<lparr>heap := h\<rparr>))
             else joinOrStart url actualResponseType s)
        | Some None \<Rightarrow> (Throws (previouslyFailed path), s)
        | None \<Rightarrow> joinOrStart url actualResponseType s)"

definition getText :: "string \<Rightarrow> service \<Rightarrow> answer \<times> service" where
  "getText path s = getData path Text s"

definition getBlob :: "string \<Rightarrow> service \<Rightarrow> answer \<times> service" where
  "getBlob path s = getData path Blob s"

definition getArrayBuffer :: "string \<Rightarrow> service \<Rightarrow> answer \<times> service" where
  "getArrayBuffer path s = getData path ArrayBuffer s"

text \<open>
  \<^verbatim>\<open>getData\<close> from its \<^verbatim>\<open>await requestPromise\<close> on, for load \<open>n\<close>, at time
  \<open>now\<close>: the load sequence ends against the network \<open>net\<close>, and the continuation
  runs its \<^verbatim>\<open>try\<close> (store the entry, hand out the value), its \<^verbatim>\<open>catch\<close> (store
  \<^verbatim>\<open>undefined\<close>, rethrow) and its \<^verbatim>\<open>finally\<close> (delete the pending request of the
  locator). The load sequence reads the configuration and the network only, and nothing
  else of the service, so its reads are placed here, where it ends.
\<close>

definition getData_resume :: "network \<Rightarrow> nat \<Rightarrow> nat \<Rightarrow> service \<Rightarrow> service" where
  "getData_resume net now n s =
     (if n < length (loads s) \<and> outcome (loads s ! n) = None then
        (let url = localUrl (loads s ! n); actualResponseType = loadType (loads s ! n) in
           case performDataLoad net (outreachConfig s) url actualResponseType of
             (Inr result, reqs) \<Rightarrow>
               (case alloc (fst result) (heap s) of
                  (d, h1) \<Rightarrow>
                    (case blobOrSpread d h1 of
                       (v, h2) \<Rightarrow>
                         s\<lparr>cache := (cache s)(url \<mapsto>
                              Some \<lparr>data = d, timestamp = now, source = snd result,
                                    responseType = actualResponseType\<rparr>),
                           pendingRequests := (pendingRequests s)(url := None),
                           heap := h2,
                           loads := (loads s)[n := (loads s ! n)
                              \<lparr>outcome := Some \<lparr>own = Inr v, shared = Inr d\<rparr>\<rparr>],
                           requests := requests s @ reqs\<rparr>))
           | (Inl error, reqs) \<Rightarrow>
               s\<lparr>cache := (cache s)(url \<mapsto> None),
                 pendingRequests := (pendingRequests s)(url := None),
                 loads := (loads s)[n := (loads s ! n)
                    \<lparr>outcome := Some \<lparr>own = Inl error, shared = Inl error\<rparr>\<rparr>],
                 requests := requests s @ reqs\<rparr>)
      else s)"

text \<open>
  \<^verbatim>\<open>clearCache(path?)\<close>: \<open>None\<close> is the call without an argument; the empty string
  is falsy and clears everything as well.
\<close>

definition clearCache :: "string option \<Rightarrow> service \<Rightarrow> service" where
  "clearCache path s =
     (case path of
        Some p \<Rightarrow>
          (if p \<noteq> [] then
             s\<lparr>cache := (cache s)(normalizeLocalUrl p := None),
               pendingRequests := (pendingRequests s)(normalizeLocalUrl p := None)\<rparr>
           else s\<lparr>cache := Map.empty, pendingRequests := Map.empty\<rparr>)
      | None \<Rightarrow> s\<lparr>cache := Map.empty, pendingRequests := Map.empty\<rparr>)"

text \<open>What the caller that got the answer \<open>a\<close> has seen, once the service is in state \<open>s\<close>.\<close>

fun observed :: "service \<Rightarrow> answer \<Rightarrow> (exn + val) option" where
  "observed s (Returns v) = Some (Inr v)"
| "observed s (Throws e) = Some (Inl e)"
| "observed s (Awaits n) =
     (if n < length (loads s) then map_option own (outcome (loads s ! n)) else None)"
| "observed s (Shares n) =
     (if n < length (loads s) then map_option shared (outcome (loads s ! n)) else None)"

text \<open>A service right after construction and configuration bootstrap.\<close>

text \<open>\<open>m\<close> calls of \<^verbatim>\<open>getData(path, responseType)\<close>, one after the other.\<close>

fun getData_times ::
  "nat \<Rightarrow> string \<Rightarrow> ResponseType \<Rightarrow> service \<Rightarrow> answer list \<times> service" where
  "getData_times 0 path t s = ([], s)"
| "getData_times (Suc m) path t s =
     (case getData path t s of
        (a, s1) \<Rightarrow> (case getData_times m path t s1 of (as, s2) \<Rightarrow> (a # as, s2)))"

definition fresh :: "(string \<times> raw) list option \<Rightarrow> service" where
  "fresh cfg =
     \<lparr>cache = Map.empty, pendingRequests = Map.empty, outreachConfig = cfg, heap = [],
      loads = [], requests = []\<rparr>"


text \<open>A value that is no reference, or a reference to an address of the heap.\<close>

definition validRef :: "obj list \<Rightarrow> val \<Rightarrow> bool" where
  "validRef h v = (case v of VRef a \<Rightarrow> a < length h | _ \<Rightarrow> True)"

section \<open>Example worlds\<close>

text \<open>A network on which every read fails.\<close>

definition offline :: network where
  "offline =
     \<lparr>http_get = (\<lambda>u t. Inl (HttpErrorResponse 404)),
      proxy_get = (\<lambda>u t. Inl (HttpErrorResponse 502)),
      JSON_parse = (\<lambda>s. None),
      body_text = (\<lambda>r. [])\<rparr>"

text \<open>
  A site with a text file, a PDF and the JSON document \<^verbatim>\<open>{a: {b: 1}}\<close>, and a
  proxy that reaches one external document, the JSON text \<^verbatim>\<open>[2]\<close>.
\<close>

definition site :: network where
  "site =
     \<lparr>http_get = (\<lambda>u t.
        if u = ''/assets/notes.txt'' then Inr (RStr ''hi'')
        else if u = ''/assets/cv.pdf'' then
          (if t = Blob then Inr (RBlob [37, 80]) else Inr (RBuffer [37, 80]))
        else if u = ''/assets/data/x.json'' then Inr (RObj [(''a'', RObj [(''b'', RNum 1)])])
        else Inl (HttpErrorResponse 404)),
      proxy_get = (\<lambda>u t.
        if u = ''https://ext/x.json'' then Inr (RStr ''[2]'')
        else Inl (HttpErrorResponse 502)),
      JSON_parse = (\<lambda>s. if s = ''[2]'' then Some (RArr [RNum 2]) else None),
      body_text = (\<lambda>r. [])\<rparr>"

text \<open>An override configuration with one entry, keyed without the leading separator.\<close>

definition overrides :: "(string \<times> raw) list option" where
  "overrides = Some [(''assets/data/x.json'', RStr ''https://ext/x.json'')]"

section \<open>Locator normalisation\<close>

lemma startsWith_append [simp]: "startsWith (p @ s) p"
  by (simp add: startsWith_def)

lemma normalizeLocalUrl_slash [simp]: "normalizeLocalUrl (CHR ''/'' # s) = CHR ''/'' # s"
  by (simp add: normalizeLocalUrl_def startsWith_def)

text \<open>
  C8, as the code has it. A relative path \<open>p\<close> (no leading separator, no assets prefix)
  and its spellings \<open>assets/p\<close> and \<open>/assets/p\<close> share the key \<open>/assets/p\<close>. The spelling
  \<open>/p\<close> starts with the separator, so the first branch returns it unchanged: its key is
  \<open>/p\<close>, which is a different key.
\<close>

theorem normalizeLocalUrl_spellings:
  assumes "\<not> startsWith p ''/''" and "\<not> startsWith p ''assets/''"
  shows "normalizeLocalUrl p = ''/assets/'' @ p
       \<and> normalizeLocalUrl (''assets/'' @ p) = ''/assets/'' @ p
       \<and> normalizeLocalUrl (''/assets/'' @ p) = ''/assets/'' @ p
       \<and> normalizeLocalUrl (''/'' @ p) = ''/'' @ p
       \<and> normalizeLocalUrl (''/'' @ p) \<noteq> normalizeLocalUrl p"
proof -
  have a: "normalizeLocalUrl p = ''/assets/'' @ p"
    using assms by (simp add: normalizeLocalUrl_def)
  have b: "normalizeLocalUrl (''assets/'' @ p) = ''/assets/'' @ p"
    by (simp add: normalizeLocalUrl_def startsWith_def)
  have c: "normalizeLocalUrl (''/assets/'' @ p) = ''/assets/'' @ p"
    by simp
  have d: "normalizeLocalUrl (''/'' @ p) = ''/'' @ p"
    by simp
  have "p \<noteq> ''assets/'' @ p"
    using assms(2) by (metis startsWith_append)
  then have e: "normalizeLocalUrl (''/'' @ p) \<noteq> normalizeLocalUrl p"
    using a d by simp
  from a b c d e show ?thesis by blast
qed

theorem normalizeLocalUrl_spellings_witness:
  "normalizeLocalUrl ''data/x.json'' = ''/assets/data/x.json''
   \<and> normalizeLocalUrl ''assets/data/x.json'' = ''/assets/data/x.json''
   \<and> normalizeLocalUrl ''/assets/data/x.json'' = ''/assets/data/x.json''
   \<and> normalizeLocalUrl ''/data/x.json'' = ''/data/x.json''"
  using normalizeLocalUrl_spellings [of "''data/x.json''"]
  by (simp add: startsWith_def)

text \<open>
  C8, as the claim states it, fails: the spelling with only the leading separator keeps
  its own key.
\<close>

theorem normalizeLocalUrl_spellings_counterexample:
  "normalizeLocalUrl ''/data/x.json'' \<noteq> normalizeLocalUrl ''data/x.json''"
  by (simp add: normalizeLocalUrl_def startsWith_def)

section \<open>The steps of the service\<close>

text \<open>A call that starts a load: the load gets the next number and is registered.\<close>

lemma getData_Awaits:
  assumes "fst (getData p k s) = Awaits n"
  shows "n = length (loads s)"
    and "snd (getData p k s) =
           s\<lparr>loads := loads s @ [\<lparr>localUrl = normalizeLocalUrl p, loadType = k, outcome = None\<rparr>],
             pendingRequests := (pendingRequests s)(normalizeLocalUrl p \<mapsto> length (loads s))\<rparr>"
    and "pendingRequests s (normalizeLocalUrl p) = None"
    and "cache s (normalizeLocalUrl p) \<noteq> Some None"
  using assms
  by (auto simp: getData_def joinOrStart_def Let_def split: option.splits if_splits prod.splits)

lemma getData_marker:
  "cache s (normalizeLocalUrl p) = Some None \<Longrightarrow> getData p k s = (Throws (previouslyFailed p), s)"
  by (simp add: getData_def)

lemma getData_start:
  assumes "pendingRequests s (normalizeLocalUrl p) = None" "cache s (normalizeLocalUrl p) = None"
  shows "getData p k s = (Awaits (length (loads s)),
           s\<lparr>loads := loads s @ [\<lparr>localUrl = normalizeLocalUrl p, loadType = k, outcome = None\<rparr>],
             pendingRequests := (pendingRequests s)(normalizeLocalUrl p \<mapsto> length (loads s))\<rparr>)"
  using assms by (simp add: getData_def joinOrStart_def Let_def)


lemma getData_resume_length [simp]:
  "length (loads (getData_resume net now n s)) = length (loads s)"
  by (simp add: getData_resume_def Let_def split: prod.splits sum.splits)

lemma getData_resume_fails:
  assumes "n < length (loads s)" "outcome (loads s ! n) = None"
    and "fst (performDataLoad net (outreachConfig s) (localUrl (loads s ! n))
           (loadType (loads s ! n))) = Inl e"
  shows "getData_resume net now n s =
           s\<lparr>cache := (cache s)(localUrl (loads s ! n) \<mapsto> None),
             pendingRequests := (pendingRequests s)(localUrl (loads s ! n) := None),
             loads := (loads s)[n := (loads s ! n)
                \<lparr>outcome := Some \<lparr>own = Inl e, shared = Inl e\<rparr>\<rparr>],
             requests := requests s @ snd (performDataLoad net (outreachConfig s)
                (localUrl (loads s ! n)) (loadType (loads s ! n)))\<rparr>"
proof -
  obtain x reqs where pr:
    "performDataLoad net (outreachConfig s) (localUrl (loads s ! n)) (loadType (loads s ! n))
       = (x, reqs)"
    by (cases "performDataLoad net (outreachConfig s) (localUrl (loads s ! n))
          (loadType (loads s ! n))")
  with assms(3) have "x = Inl e" by simp
  with pr assms(1,2) show ?thesis by (simp add: getData_resume_def Let_def)
qed

lemma getData_resume_succeeds:
  assumes "n < length (loads s)" "outcome (loads s ! n) = None"
    and "fst (performDataLoad net (outreachConfig s) (localUrl (loads s ! n))
           (loadType (loads s ! n))) = Inr r"
  shows "getData_resume net now n s =
           s\<lparr>cache := (cache s)(localUrl (loads s ! n) \<mapsto>
                Some \<lparr>data = fst (alloc (fst r) (heap s)), timestamp = now, source = snd r,
                      responseType = loadType (loads s ! n)\<rparr>),
             pendingRequests := (pendingRequests s)(localUrl (loads s ! n) := None),
             heap := snd (blobOrSpread (fst (alloc (fst r) (heap s)))
                (snd (alloc (fst r) (heap s)))),
             loads := (loads s)[n := (loads s ! n)\<lparr>outcome := Some
                \<lparr>own = Inr (fst (blobOrSpread (fst (alloc (fst r) (heap s)))
                         (snd (alloc (fst r) (heap s))))),
                 shared = Inr (fst (alloc (fst r) (heap s)))\<rparr>\<rparr>],
             requests := requests s @ snd (performDataLoad net (outreachConfig s)
                (localUrl (loads s ! n)) (loadType (loads s ! n)))\<rparr>"
proof -
  obtain x reqs where pr:
    "performDataLoad net (outreachConfig s) (localUrl (loads s ! n)) (loadType (loads s ! n))
       = (x, reqs)"
    by (cases "performDataLoad net (outreachConfig s) (localUrl (loads s ! n))
          (loadType (loads s ! n))")
  with assms(3) have "x = Inr r" by simp
  with pr assms(1,2) show ?thesis
    by (simp add: getData_resume_def Let_def split: prod.splits)
qed

lemma clearCache_at:
  "cache (clearCache (Some p) s) (normalizeLocalUrl p) = None"
  "pendingRequests (clearCache (Some p) s) (normalizeLocalUrl p) = None"
  "loads (clearCache x s) = loads s"
  "requests (clearCache x s) = requests s"
  "heap (clearCache x s) = heap s"
  "outreachConfig (clearCache x s) = outreachConfig s"
  by (auto simp: clearCache_def split: option.splits)

lemma clearCache_None:
  "cache (clearCache None s) u = None"
  "pendingRequests (clearCache None s) u = None"
  by (simp_all add: clearCache_def)

lemma getData_times_marker:
  assumes "cache s (normalizeLocalUrl p) = Some None"
  shows "getData_times m p k s = (replicate m (Throws (previouslyFailed p)), s)"
proof (induction m)
  case 0
  show ?case by simp
next
  case (Suc m)
  with getData_marker [OF assms, of k] show ?case by simp
qed


section \<open>The network reads of a load sequence\<close>

lemma fetchExternalData_requests:
  "filter isLocalGet (snd (fetchExternalData net u rt)) = []"
  "length (filter isProxyGet (snd (fetchExternalData net u rt))) \<le> 1"
  by (simp_all add: fetchExternalData_def Let_def split: sum.splits)

lemma performDataLoad_no_override:
  "getExternalUrl cfg url = None \<Longrightarrow>
     performDataLoad net cfg url rt = (fst (performDataLoad net None url rt), [LocalGet url rt])"
  by (simp add: performDataLoad_def getExternalUrl_def split: sum.splits)

lemma performDataLoad_external_fails:
  "getExternalUrl cfg url = Some u \<Longrightarrow> fst (fetchExternalData net u rt) = Inl e \<Longrightarrow>
     performDataLoad net cfg url rt =
       (fst (performDataLoad net None url rt), snd (fetchExternalData net u rt) @ [LocalGet url rt])"
  by (cases "fetchExternalData net u rt")
     (simp add: performDataLoad_def getExternalUrl_def split: sum.splits)


section \<open>What callers are handed\<close>



lemma length_setProperty [simp]: "length (setProperty t k v h) = length h"
  by (simp add: setProperty_def split: val.splits obj.splits)


lemma setProperty_append:
  "validRef h t \<Longrightarrow> setProperty t k v (h @ ext) = setProperty t k v h @ ext"
  by (cases t) (auto simp: validRef_def setProperty_def nth_append list_update_append
      split: obj.splits)





lemma ownEnumerable_new [simp]:
  "length h = a \<Longrightarrow> ownEnumerable (h @ [OPlain fs]) (VRef a) = fs"
  by (auto simp: ownEnumerable_def)


lemma instanceofBlob_setProperty [simp]:
  "instanceofBlob (setProperty t k v h) d = instanceofBlob h d"
  by (auto simp: instanceofBlob_def setProperty_def nth_list_update split: val.splits obj.splits)



text \<open>A cache hit on a \<^verbatim>\<open>Blob\<close> hands out the cached reference itself.\<close>

lemma getData_hit_Blob:
  assumes "cache s (normalizeLocalUrl p) = Some (Some e)" and "responseType e = k"
    and "instanceofBlob (heap s) (data e)"
  shows "getData p k s = (Returns (data e), s)"
  using assms by (simp add: getData_def Let_def blobOrSpread_def)







section \<open>Recorded failures\<close>

text \<open>
  C5. A call \<^verbatim>\<open>getData(p, k)\<close> starts load \<open>n\<close> and the load sequence fails with
  \<open>e\<close>. Once the call has failed (it rejects with \<open>e\<close>), the next call for \<open>p\<close> and
  \<open>k\<close>, and any number \<open>m\<close> of calls after it, reject with the previously failed error
  and leave the service as it is: no load is started and no network read is made. After
  \<^verbatim>\<open>clearCache(p)\<close> the same call starts a new load.
\<close>

theorem getData_failure_sticky:
  assumes "fst (getData p k s0) = Awaits n"
    and "fst (performDataLoad net (outreachConfig s0) (normalizeLocalUrl p) k) = Inl e"
  shows "observed (getData_resume net now n (snd (getData p k s0))) (Awaits n) = Some (Inl e)
       \<and> getData p k (getData_resume net now n (snd (getData p k s0)))
           = (Throws (previouslyFailed p), getData_resume net now n (snd (getData p k s0)))
       \<and> getData_times m p k (getData_resume net now n (snd (getData p k s0)))
           = (replicate m (Throws (previouslyFailed p)),
              getData_resume net now n (snd (getData p k s0)))
       \<and> fst (getData p k (clearCache (Some p) (getData_resume net now n (snd (getData p k s0)))))
           = Awaits (Suc n)"
proof -
  let ?u = "normalizeLocalUrl p"
  let ?s1 = "snd (getData p k s0)"
  let ?s2 = "getData_resume net now n ?s1"
  note st = getData_Awaits [OF assms(1)]
  have n1: "n < length (loads ?s1)" and o1: "outcome (loads ?s1 ! n) = None"
    and u1: "localUrl (loads ?s1 ! n) = ?u" and k1: "loadType (loads ?s1 ! n) = k"
    and c1: "outreachConfig ?s1 = outreachConfig s0"
    by (simp_all add: st)
  have f: "fst (performDataLoad net (outreachConfig ?s1) (localUrl (loads ?s1 ! n))
      (loadType (loads ?s1 ! n))) = Inl e"
    using assms(2) by (simp add: u1 k1 c1)
  note r = getData_resume_fails [OF n1 o1 f, of now]
  have m: "cache ?s2 ?u = Some None" by (simp add: r u1)
  have a: "observed ?s2 (Awaits n) = Some (Inl e)"
    using n1 by (simp add: r)
  have b: "getData p k ?s2 = (Throws (previouslyFailed p), ?s2)"
    by (rule getData_marker [OF m])
  have b': "getData_times m p k ?s2 = (replicate m (Throws (previouslyFailed p)), ?s2)"
    by (rule getData_times_marker [OF m])
  have len: "length (loads ?s2) = Suc n" by (simp add: st)
  have "fst (getData p k (clearCache (Some p) ?s2))
          = Awaits (length (loads (clearCache (Some p) ?s2)))"
    by (simp add: getData_start clearCache_at)
  then have c: "fst (getData p k (clearCache (Some p) ?s2)) = Awaits (Suc n)"
    using len by (simp add: clearCache_at)
  from a b b' c show ?thesis by blast
qed

theorem getData_failure_sticky_witness:
  "observed (getData_resume offline 0 0 (snd (getData ''data/missing.json'' Json (fresh None))))
     (Awaits 0)
     = Some (Inl (failedNow ''/assets/data/missing.json'' (HttpErrorResponse 404)))
   \<and> fst (getData ''data/missing.json'' Json
        (getData_resume offline 0 0 (snd (getData ''data/missing.json'' Json (fresh None)))))
     = Throws (previouslyFailed ''data/missing.json'')
   \<and> fst (getData_times 3 ''data/missing.json'' Json
        (getData_resume offline 0 0 (snd (getData ''data/missing.json'' Json (fresh None)))))
     = replicate 3 (Throws (previouslyFailed ''data/missing.json''))
   \<and> fst (getData ''data/missing.json'' Json (clearCache (Some ''data/missing.json'')
        (getData_resume offline 0 0 (snd (getData ''data/missing.json'' Json (fresh None))))))
     = Awaits 1"
proof -
  have h1: "fst (getData ''data/missing.json'' Json (fresh None)) = Awaits 0"
    by code_simp
  have h2: "fst (performDataLoad offline (outreachConfig (fresh None))
              (normalizeLocalUrl ''data/missing.json'') Json)
            = Inl (failedNow ''/assets/data/missing.json'' (HttpErrorResponse 404))"
    by code_simp
  from getData_failure_sticky [OF h1 h2, of 0 3] show ?thesis
    by simp
qed

text \<open>
  C10. Load \<open>n\<close> for the locator of \<open>p\<close>, of whatever response type, fails. From then
  on a call for \<open>p\<close> with any response type \<open>k2\<close> rejects with the previously failed
  error and leaves the service as it is; after \<^verbatim>\<open>clearCache(p)\<close> it starts a new load.
\<close>

theorem failure_marker_kind_blind:
  assumes "n < length (loads s)" and "outcome (loads s ! n) = None"
    and "localUrl (loads s ! n) = normalizeLocalUrl p"
    and "fst (performDataLoad net (outreachConfig s) (normalizeLocalUrl p)
           (loadType (loads s ! n))) = Inl e"
  shows "getData p k2 (getData_resume net now n s)
           = (Throws (previouslyFailed p), getData_resume net now n s)
       \<and> fst (getData p k2 (clearCache (Some p) (getData_resume net now n s)))
           = Awaits (length (loads s))"
proof -
  let ?s2 = "getData_resume net now n s"
  have f: "fst (performDataLoad net (outreachConfig s) (localUrl (loads s ! n))
      (loadType (loads s ! n))) = Inl e"
    using assms(3,4) by simp
  have "cache ?s2 (normalizeLocalUrl p) = Some None"
    by (simp add: getData_resume_fails [OF assms(1,2) f] assms(3))
  then have a: "getData p k2 ?s2 = (Throws (previouslyFailed p), ?s2)"
    by (rule getData_marker)
  have b: "fst (getData p k2 (clearCache (Some p) ?s2)) = Awaits (length (loads s))"
    by (simp add: getData_start clearCache_at)
  from a b show ?thesis by blast
qed

theorem failure_marker_kind_blind_witness:
  "loadType (loads (snd (getData ''data/missing.json'' Json (fresh None))) ! 0) = Json
   \<and> fst (getData ''/assets/data/missing.json'' Text
        (getData_resume offline 0 0 (snd (getData ''data/missing.json'' Json (fresh None)))))
     = Throws (previouslyFailed ''/assets/data/missing.json'')
   \<and> fst (getData ''/assets/data/missing.json'' Text (clearCache (Some ''/assets/data/missing.json'')
        (getData_resume offline 0 0 (snd (getData ''data/missing.json'' Json (fresh None))))))
     = Awaits 1"
proof -
  let ?s = "snd (getData ''data/missing.json'' Json (fresh None))"
  have h1: "0 < length (loads ?s)" by code_simp
  have h2: "outcome (loads ?s ! 0) = None" by code_simp
  have h3: "localUrl (loads ?s ! 0) = normalizeLocalUrl ''/assets/data/missing.json''"
    by code_simp
  have h4: "fst (performDataLoad offline (outreachConfig ?s)
              (normalizeLocalUrl ''/assets/data/missing.json'') (loadType (loads ?s ! 0)))
            = Inl (failedNow ''/assets/data/missing.json'' (HttpErrorResponse 404))"
    by code_simp
  have k: "loadType (loads ?s ! 0) = Json" by code_simp
  have l: "length (loads ?s) = 1" by code_simp
  from failure_marker_kind_blind [OF h1 h2 h3 h4, of Text 0] k l show ?thesis
    by simp
qed

section \<open>Pending requests\<close>

text \<open>
  C9, as the code has it. While load \<open>n\<close> is pending for the locator of \<open>p\<close>, a call
  \<^verbatim>\<open>getData(p, k2)\<close> never starts a load and never reads the network, whatever the
  response type of the pending load. The cache check comes first: the call is handed the
  pending promise of load \<open>n\<close> when the cache holds nothing for the locator or an entry
  of another response type than \<open>k2\<close>.
\<close>

theorem getData_joins_pending:
  assumes "pendingRequests s (normalizeLocalUrl p) = Some n"
  shows "loads (snd (getData p k2 s)) = loads s
       \<and> requests (snd (getData p k2 s)) = requests s
       \<and> pendingRequests (snd (getData p k2 s)) = pendingRequests s
       \<and> ((cache s (normalizeLocalUrl p) = None
            \<or> (\<exists>e. cache s (normalizeLocalUrl p) = Some (Some e) \<and> responseType e \<noteq> k2))
           \<longrightarrow> getData p k2 s = (Shares n, s))"
  using assms
  by (auto simp: getData_def joinOrStart_def Let_def split: option.splits prod.splits)

theorem getData_joins_pending_witness:
  "loadType (loads (snd (getData ''notes.txt'' Json (fresh None))) ! 0) = Json
   \<and> loads (snd (getData ''notes.txt'' Text (snd (getData ''notes.txt'' Json (fresh None)))))
     = loads (snd (getData ''notes.txt'' Json (fresh None)))
   \<and> requests (snd (getData ''notes.txt'' Text (snd (getData ''notes.txt'' Json (fresh None)))))
     = requests (snd (getData ''notes.txt'' Json (fresh None)))
   \<and> fst (getData ''notes.txt'' Text (snd (getData ''notes.txt'' Json (fresh None)))) = Shares 0"
proof -
  let ?s = "snd (getData ''notes.txt'' Json (fresh None))"
  have h: "pendingRequests ?s (normalizeLocalUrl ''notes.txt'') = Some 0" by code_simp
  have c: "cache ?s (normalizeLocalUrl ''notes.txt'') = None" by code_simp
  have k: "loadType (loads ?s ! 0) = Json" by code_simp
  from getData_joins_pending [OF h, of Text] c k show ?thesis
    by simp
qed

text \<open>
  C9, as the claim states it, fails where the cache already holds an entry of the
  response type asked for: a text entry is cached, a JSON load for the same locator is
  pending as load 1, and the text call is served from the cache, not from load 1.
\<close>

theorem getData_joins_pending_counterexample:
  "(case getData ''notes.txt'' Json
           (getData_resume site 0 0 (snd (getText ''notes.txt'' (fresh None)))) of
      (a, s3) \<Rightarrow>
        (a, pendingRequests s3 ''/assets/notes.txt'', loadType (loads s3 ! 1),
         fst (getData ''notes.txt'' Text s3)))
   = (Awaits 1, Some 1, Json, Returns (VRef 1))"
  by code_simp

section \<open>Clearing the cache\<close>

text \<open>
  C3, as the code has it. Load \<open>n\<close> is in flight for the locator of \<open>p\<close>, and
  \<^verbatim>\<open>clearCache(p)\<close> or \<^verbatim>\<open>clearCache()\<close> is called. The clear removes the cache
  entry and the pending record of the locator, so a \<^verbatim>\<open>getData(p)\<close> that follows it
  starts a new load. It does not stop load \<open>n\<close>: when load \<open>n\<close> ends after the clear,
  its continuation stores into the cache under the locator as it would have without the
  clear, the entry on success, the recorded failure on failure.
\<close>

theorem clearCache_keeps_load_running:
  assumes "n < length (loads s)" and "outcome (loads s ! n) = None"
    and "localUrl (loads s ! n) = normalizeLocalUrl p"
    and "path = Some p \<or> path = None"
  shows "cache (clearCache path s) (normalizeLocalUrl p) = None
       \<and> pendingRequests (clearCache path s) (normalizeLocalUrl p) = None
       \<and> fst (getData p k (clearCache path s)) = Awaits (length (loads s))
       \<and> cache (getData_resume net now n (clearCache path s)) (normalizeLocalUrl p) =
           (case fst (performDataLoad net (outreachConfig s) (normalizeLocalUrl p)
                        (loadType (loads s ! n))) of
              Inl e \<Rightarrow> Some None
            | Inr r \<Rightarrow>
                Some (Some \<lparr>data = fst (alloc (fst r) (heap s)), timestamp = now,
                            source = snd r, responseType = loadType (loads s ! n)\<rparr>))"
proof -
  let ?u = "normalizeLocalUrl p"
  let ?c = "clearCache path s"
  have a: "cache ?c ?u = None" and b: "pendingRequests ?c ?u = None"
    using assms(4) by (auto simp: clearCache_at clearCache_None)
  have c: "fst (getData p k ?c) = Awaits (length (loads s))"
    using a b by (simp add: getData_start clearCache_at)
  have n': "n < length (loads ?c)" and o': "outcome (loads ?c ! n) = None"
    using assms(1,2) by (simp_all add: clearCache_at)
  have d: "cache (getData_resume net now n ?c) ?u =
           (case fst (performDataLoad net (outreachConfig s) ?u (loadType (loads s ! n))) of
              Inl e \<Rightarrow> Some None
            | Inr r \<Rightarrow>
                Some (Some \<lparr>data = fst (alloc (fst r) (heap s)), timestamp = now,
                            source = snd r, responseType = loadType (loads s ! n)\<rparr>))"
  proof (cases "fst (performDataLoad net (outreachConfig s) ?u (loadType (loads s ! n)))")
    case (Inl e)
    then have f: "fst (performDataLoad net (outreachConfig ?c) (localUrl (loads ?c ! n))
        (loadType (loads ?c ! n))) = Inl e"
      by (simp add: clearCache_at assms(3))
    from getData_resume_fails [OF n' o' f] Inl show ?thesis
      by (simp add: clearCache_at assms(3))
  next
    case (Inr r)
    then have f: "fst (performDataLoad net (outreachConfig ?c) (localUrl (loads ?c ! n))
        (loadType (loads ?c ! n))) = Inr r"
      by (simp add: clearCache_at assms(3))
    from getData_resume_succeeds [OF n' o' f] Inr show ?thesis
      by (simp add: clearCache_at assms(3))
  qed
  from a b c d show ?thesis by blast
qed

theorem clearCache_keeps_load_running_witness:
  "cache (clearCache (Some ''data/x.json'') (snd (getData ''data/x.json'' Json (fresh None))))
     ''/assets/data/x.json'' = None
   \<and> pendingRequests
       (clearCache (Some ''data/x.json'') (snd (getData ''data/x.json'' Json (fresh None))))
       ''/assets/data/x.json'' = None
   \<and> fst (getData ''data/x.json'' Json
        (clearCache (Some ''data/x.json'') (snd (getData ''data/x.json'' Json (fresh None)))))
     = Awaits 1
   \<and> cache (getData_resume site 7 0
       (clearCache (Some ''data/x.json'') (snd (getData ''data/x.json'' Json (fresh None)))))
       ''/assets/data/x.json''
     = Some (Some \<lparr>data = VRef 1, timestamp = 7, source = Local, responseType = Json\<rparr>)"
proof -
  let ?s = "snd (getData ''data/x.json'' Json (fresh None))"
  have h1: "0 < length (loads ?s)" by code_simp
  have h2: "outcome (loads ?s ! 0) = None" by code_simp
  have h3: "localUrl (loads ?s ! 0) = normalizeLocalUrl ''data/x.json''" by code_simp
  have h4: "Some ''data/x.json'' = Some ''data/x.json'' \<or> Some ''data/x.json'' = None"
    by simp
  have u: "normalizeLocalUrl ''data/x.json'' = ''/assets/data/x.json''" by code_simp
  have l: "length (loads ?s) = 1" by code_simp
  have r: "(case fst (performDataLoad site (outreachConfig ?s) ''/assets/data/x.json''
                        (loadType (loads ?s ! 0))) of
              Inl e \<Rightarrow> Some None
            | Inr r \<Rightarrow>
                Some (Some \<lparr>data = fst (alloc (fst r) (heap ?s)), timestamp = 7,
                            source = snd r, responseType = loadType (loads ?s ! 0)\<rparr>))
           = Some (Some \<lparr>data = VRef 1, timestamp = 7, source = Local, responseType = Json\<rparr>)"
    by code_simp
  from clearCache_keeps_load_running [OF h1 h2 h3 h4, of Json site 7]
  show ?thesis by (simp only: u l r)
qed

text \<open>
  C3, as the claim states it, fails: a request for \<^verbatim>\<open>data/x.json\<close> is in flight,
  \<^verbatim>\<open>clearCache('data/x.json')\<close> removes its pending record, and when the request
  ends its result is in the cache.
\<close>

theorem clearCache_keeps_load_running_counterexample:
  "(case getData ''data/x.json'' Json (fresh None) of
      (a, s1) \<Rightarrow>
        (a, pendingRequests (clearCache (Some ''data/x.json'') s1) ''/assets/data/x.json'',
         cache (getData_resume site 7 0 (clearCache (Some ''data/x.json'') s1))
           ''/assets/data/x.json''))
   = (Awaits 0, None,
      Some (Some \<lparr>data = VRef 1, timestamp = 7, source = Local, responseType = Json\<rparr>))"
  by code_simp

section \<open>Fallback order\<close>

text \<open>
  C6. If the resolver names an external URL for the locator and the external fetch
  fails, the load sequence goes on to the local fetch: its result is the result of the
  local fetch alone, and its network reads are those of the external fetch, none of them
  local, followed by the local read. If the resolver names none, the local read is the
  only network read.
\<close>

theorem performDataLoad_fallback_order:
  "(getExternalUrl cfg url = Some u \<and> fst (fetchExternalData net u rt) = Inl e \<longrightarrow>
      performDataLoad net cfg url rt =
        (fst (performDataLoad net None url rt),
         snd (fetchExternalData net u rt) @ [LocalGet url rt])
      \<and> filter isLocalGet (snd (fetchExternalData net u rt)) = [])
   \<and> (getExternalUrl cfg url = None \<longrightarrow>
        snd (performDataLoad net cfg url rt) = [LocalGet url rt])"
  using performDataLoad_external_fails [of cfg url u net rt e]
    performDataLoad_no_override [of cfg url net rt]
    fetchExternalData_requests(1) [of net u rt]
  by simp

theorem performDataLoad_fallback_order_witness:
  "performDataLoad offline overrides ''/assets/data/x.json'' Json
     = (Inl (failedNow ''/assets/data/x.json'' (HttpErrorResponse 404)),
        [ProxyGet ''https://ext/x.json'' Text, LocalGet ''/assets/data/x.json'' Json])
   \<and> snd (performDataLoad offline None ''/assets/data/x.json'' Json)
     = [LocalGet ''/assets/data/x.json'' Json]"
proof -
  have h1: "getExternalUrl overrides ''/assets/data/x.json'' = Some ''https://ext/x.json''"
    by code_simp
  have h2: "fst (fetchExternalData offline ''https://ext/x.json'' Json)
              = Inl (HttpErrorResponse 502)"
    by code_simp
  have h3: "getExternalUrl None ''/assets/data/x.json'' = None"
    by code_simp
  have e1: "fst (performDataLoad offline None ''/assets/data/x.json'' Json)
              = Inl (failedNow ''/assets/data/x.json'' (HttpErrorResponse 404))"
    by code_simp
  have e2: "snd (fetchExternalData offline ''https://ext/x.json'' Json)
              = [ProxyGet ''https://ext/x.json'' Text]"
    by code_simp
  from performDataLoad_fallback_order
         [of overrides "''/assets/data/x.json''" "''https://ext/x.json''" offline Json
             "HttpErrorResponse 502"]
       performDataLoad_fallback_order
         [of None "''/assets/data/x.json''" "''https://ext/x.json''" offline Json
             "HttpErrorResponse 502"]
       h1 h2 h3 e1 e2
  show ?thesis by simp
qed

section \<open>Deduplication\<close>




section \<open>Defensive copies\<close>




section \<open>Text and binary payloads\<close>

text \<open>
  C1 on a concrete site. The local read of \<^verbatim>\<open>/assets/notes.txt\<close> yields the text
  \<^verbatim>\<open>hi\<close>. The first \<^verbatim>\<open>getText('notes.txt')\<close> starts load 0 and is handed the
  reference 0; the cache holds the string \<^verbatim>\<open>hi\<close>; the second call, a cache hit, is
  handed the reference 1. Both references are plain objects with the properties
  \<^verbatim>\<open>0: 'h'\<close> and \<^verbatim>\<open>1: 'i'\<close>: the spread of the string, not the string.
\<close>

theorem getText_hands_out_object:
  "(case getText ''notes.txt'' (fresh None) of
      (a, s1) \<Rightarrow>
        (case getText ''notes.txt'' (getData_resume site 0 0 s1) of
           (b, s3) \<Rightarrow>
             (a, observed (getData_resume site 0 0 s1) a,
              map_option (map_option data)
                (cache (getData_resume site 0 0 s1) ''/assets/notes.txt''),
              b, heap s3)))
   = (Awaits 0, Some (Inr (VRef 0)), Some (Some (VStr ''hi'')), Returns (VRef 1),
      [OPlain [(''0'', VStr ''h''), (''1'', VStr ''i'')],
       OPlain [(''0'', VStr ''h''), (''1'', VStr ''i'')]])"
  by code_simp

text \<open>
  The \<^verbatim>\<open>Blob\<close> path, for comparison with the \<^verbatim>\<open>ArrayBuffer\<close> path below:
  the call that started the load and the cache hit are both handed reference 0, the
  cached \<^verbatim>\<open>Blob\<close> itself, and the heap holds nothing else.
\<close>

lemma getBlob_hands_out_the_Blob:
  "(case getBlob ''cv.pdf'' (fresh None) of
      (a, s1) \<Rightarrow>
        (case getBlob ''cv.pdf'' (getData_resume site 0 0 s1) of
           (b, s3) \<Rightarrow>
             (a, observed (getData_resume site 0 0 s1) a,
              map_option (map_option data)
                (cache (getData_resume site 0 0 s1) ''/assets/cv.pdf''),
              b, heap s3)))
   = (Awaits 0, Some (Inr (VRef 0)), Some (Some (VRef 0)), Returns (VRef 0),
      [OBlob [37, 80]])"
  by code_simp

text \<open>
  C2 on a concrete site. The local read of \<^verbatim>\<open>/assets/cv.pdf\<close> as an
  \<^verbatim>\<open>ArrayBuffer\<close> yields the buffer at reference 0, which the cache holds. The call
  that started the load is handed reference 1 and the cache hit reference 2: two new
  plain objects without properties, not the buffer.
\<close>

theorem getArrayBuffer_hands_out_empty_object:
  "(case getArrayBuffer ''cv.pdf'' (fresh None) of
      (a, s1) \<Rightarrow>
        (case getArrayBuffer ''cv.pdf'' (getData_resume site 0 0 s1) of
           (b, s3) \<Rightarrow>
             (a, observed (getData_resume site 0 0 s1) a,
              map_option (map_option data)
                (cache (getData_resume site 0 0 s1) ''/assets/cv.pdf''),
              b, heap s3)))
   = (Awaits 0, Some (Inr (VRef 1)), Some (Some (VRef 0)), Returns (VRef 2),
      [OArrayBuffer [37, 80], OPlain [], OPlain []])"
  by code_simp

end
